theory Spec2Isabelle
  imports Main "HOL-Library.Word"
begin

unbundle bit_operations_syntax

section \<open>Machine types and the output iterator\<close>

text \<open>
  \<open>std::uint8_t\<close> and \<open>std::uint16_t\<close> are words of that width. \<open>std::size_t\<close> values
  in \<open>packets.hpp\<close> are sizes of strings and vectors that exist in memory together and
  sums of a few of them, so they never reach the modulus of \<open>std::size_t\<close>; they are
  natural numbers here.
\<close>

type_synonym uint8 = "8 word"
type_synonym uint16 = "16 word"
type_synonym size_t = nat

text \<open>
  \<open>htons\<close> comes from \<open>arpa/inet.h\<close> (or \<open>WinSock2.h\<close>), not from the repository.
  It is modelled for a little-endian host (x86, x86-64, little-endian ARM, every Windows
  target), where it exchanges the two bytes of its argument. On a big-endian host
  \<open>htons\<close> is the identity and the byte order the serializers produce would differ; that
  platform is outside this development.
\<close>

definition htons :: "uint16 \<Rightarrow> uint16" where
  "htons x = push_bit 8 x OR drop_bit 8 x"

text \<open>
  The template parameter \<open>OutputIterator\<close>: the only operation used on it is
  \<open>*(It++) = b\<close>, which hands one byte to the sink and advances. The iterator is the
  sequence of bytes handed over so far, in order.
\<close>

type_synonym OutputIterator = "uint8 list"

definition put :: "OutputIterator \<Rightarrow> uint8 \<Rightarrow> OutputIterator" where
  "put It b = It @ [b]"

text \<open>
  \<open>for (auto Byte : S) *(It++) = static_cast<std::uint8_t>(Byte);\<close> over a
  \<open>std::string\<close>: each \<open>char\<close> is written as the byte with the same bit pattern.
\<close>

definition put_chars :: "OutputIterator \<Rightarrow> string \<Rightarrow> OutputIterator" where
  "put_chars It S = fold (\<lambda>Byte It. put It (of_char Byte)) S It"

text \<open>\<open>for (auto Byte : DataBuffer) *(It++) = Byte;\<close> over a byte vector.\<close>

definition put_bytes :: "OutputIterator \<Rightarrow> uint8 list \<Rightarrow> OutputIterator" where
  "put_bytes It Buffer = fold (\<lambda>Byte It. put It Byte) Buffer It"

text \<open>
  A failed \<open>assert\<close> aborts the program (the header is modelled with assertions
  enabled, that is without \<open>NDEBUG\<close>); no object is constructed and nothing is returned.
\<close>

datatype error = AssertionFailed

section \<open>Enumerations\<close>

text \<open>
  \<open>enum Type : std::uint16_t\<close>. An enumeration with a fixed underlying type holds every
  value of that type, not only its enumerators, so \<open>Type\<close> is the 16-bit word and the
  enumerators are constants.
\<close>

type_synonym Type = uint16

definition ReadRequest :: Type where
  "ReadRequest = 0x01"

definition WriteRequest :: Type where
  "WriteRequest = 0x02"

definition DataPacket :: Type where
  "DataPacket = 0x03"

definition AcknowledgmentPacket :: Type where
  "AcknowledgmentPacket = 0x04"

definition ErrorPacket :: Type where
  "ErrorPacket = 0x05"

definition OptionAcknowledgmentPacket :: Type where
  "OptionAcknowledgmentPacket = 0x06"

lemmas Type_defs [simp] =
  ReadRequest_def WriteRequest_def DataPacket_def AcknowledgmentPacket_def ErrorPacket_def
  OptionAcknowledgmentPacket_def

section \<open>Request\<close>

text \<open>
  The member \<open>Type_\<close> of each packet class is the field \<open>Request_Type\<close>, \<open>Data_Type\<close>,
  \<open>Ack_Type\<close>, \<open>Error_Type\<close> or \<open>OAck_Type\<close> of its record; the member \<open>Block\<close> of
  \<open>Data\<close> and \<open>Acknowledgment\<close> is \<open>Data_Block\<close> and \<open>Ack_Block\<close>.
\<close>

record Request =
  Request_Type :: uint16
  Filename :: string
  Mode :: string
  OptionsNames :: "string list"
  OptionsValues :: "string list"

text \<open>\<open>Request(types::Type, std::string_view, std::string_view)\<close>\<close>

definition Request_ctor :: "Type \<Rightarrow> string \<Rightarrow> string \<Rightarrow> error + Request" where
  "Request_ctor Ty Fn Md =
     (if Ty = ReadRequest \<or> Ty = WriteRequest
      then Inr \<lparr>Request_Type = Ty, Filename = Fn, Mode = Md,
                OptionsNames = [], OptionsValues = []\<rparr>
      else Inl AssertionFailed)"

text \<open>\<open>Request(types::Type, std::string &&, std::string &&)\<close>\<close>

definition Request_ctor_move :: "Type \<Rightarrow> string \<Rightarrow> string \<Rightarrow> error + Request" where
  "Request_ctor_move Ty Fn Md =
     (if Ty = ReadRequest \<or> Ty = WriteRequest
      then Inr \<lparr>Request_Type = Ty, Filename = Fn, Mode = Md,
                OptionsNames = [], OptionsValues = []\<rparr>
      else Inl AssertionFailed)"

text \<open>
  \<open>Request(types::Type, std::string_view, std::string_view, const std::vector<std::string> &,
  const std::vector<std::string> &)\<close>: delegates to the three-argument constructor, then
  assigns the two vectors.
\<close>

definition Request_ctor_options ::
  "Type \<Rightarrow> string \<Rightarrow> string \<Rightarrow> string list \<Rightarrow> string list \<Rightarrow> error + Request" where
  "Request_ctor_options Ty Fn Md Names Values =
     (case Request_ctor Ty Fn Md of
        Inl e \<Rightarrow> Inl e
      | Inr this \<Rightarrow> Inr (this\<lparr>OptionsNames := Names, OptionsValues := Values\<rparr>))"

text \<open>
  \<open>Request(types::Type, std::string &&, std::string &&, std::vector<std::string> &&,
  std::vector<std::string> &&)\<close>: initialises all five members, then asserts on the type.
\<close>

definition Request_ctor_options_move ::
  "Type \<Rightarrow> string \<Rightarrow> string \<Rightarrow> string list \<Rightarrow> string list \<Rightarrow> error + Request" where
  "Request_ctor_options_move Ty Fn Md Names Values =
     (if Ty = ReadRequest \<or> Ty = WriteRequest
      then Inr \<lparr>Request_Type = Ty, Filename = Fn, Mode = Md,
                OptionsNames = Names, OptionsValues = Values\<rparr>
      else Inl AssertionFailed)"

text \<open>
  One round of the loop \<open>for (std::size_t Idx = 0; Idx != OptionsNames.size(); ++Idx)\<close>
  of \<open>Request::serialize\<close>; the loop state is the iterator and \<open>OptionsSize\<close>.
\<close>

definition Request_option_step ::
  "Request \<Rightarrow> nat \<Rightarrow> OutputIterator \<times> size_t \<Rightarrow> OutputIterator \<times> size_t" where
  "Request_option_step r Idx st =
     (case st of (It, OptionsSize) \<Rightarrow>
        let It = put_chars It (OptionsNames r ! Idx);
            It = put It 0;
            It = put_chars It (OptionsValues r ! Idx);
            It = put It 0
        in (It, OptionsSize + (length (OptionsNames r ! Idx) + length (OptionsValues r ! Idx) + 2)))"

text \<open>
  \<open>Request::serialize\<close>. The assertion at its head guards the loop: \<open>Idx\<close> runs through
  \<open>0 ..< OptionsNames.size()\<close>, and past the assertion that is the index range of both
  vectors. The result is the bytes written and the returned size.
\<close>

definition Request_serialize :: "Request \<Rightarrow> error + (uint8 list \<times> size_t)" where
  "Request_serialize r =
     (if length (OptionsNames r) \<noteq> length (OptionsValues r) then Inl AssertionFailed
      else
        let It = [];
            It = put It (ucast (drop_bit 0 (htons (Request_Type r))));
            It = put It (ucast (drop_bit 8 (htons (Request_Type r))));
            It = put_chars It (Filename r);
            It = put It 0;
            It = put_chars It (Mode r);
            It = put It 0;
            (It, OptionsSize) =
              fold (Request_option_step r) [0 ..< length (OptionsNames r)] (It, 0)
        in Inr (It, 2 + length (Filename r) + length (Mode r) + OptionsSize + 2))"

section \<open>Data\<close>

record Data =
  Data_Type :: uint16
  Data_Block :: uint16
  DataBuffer :: "uint8 list"

text \<open>\<open>Data(std::uint16_t, const std::vector<std::uint8_t> &)\<close>\<close>

definition Data_ctor :: "uint16 \<Rightarrow> uint8 list \<Rightarrow> error + Data" where
  "Data_ctor Block Buffer =
     (if \<not> Block \<ge> 1 then Inl AssertionFailed
      else if \<not> (length Buffer \<ge> 0 \<and> length Buffer \<le> 512) then Inl AssertionFailed
      else Inr \<lparr>Data_Type = DataPacket, Data_Block = Block, DataBuffer = Buffer\<rparr>)"

text \<open>\<open>Data(std::uint16_t, std::vector<std::uint8_t> &&)\<close>\<close>

definition Data_ctor_move :: "uint16 \<Rightarrow> uint8 list \<Rightarrow> error + Data" where
  "Data_ctor_move Block Buffer =
     (if \<not> Block \<ge> 1 then Inl AssertionFailed
      else if \<not> (length Buffer \<ge> 0 \<and> length Buffer \<le> 512) then Inl AssertionFailed
      else Inr \<lparr>Data_Type = DataPacket, Data_Block = Block, DataBuffer = Buffer\<rparr>)"

definition Data_serialize :: "Data \<Rightarrow> uint8 list \<times> size_t" where
  "Data_serialize d =
     (let It = [];
          It = put It (ucast (drop_bit 0 (htons (Data_Type d))));
          It = put It (ucast (drop_bit 8 (htons (Data_Type d))));
          It = put It (ucast (drop_bit 0 (htons (Data_Block d))));
          It = put It (ucast (drop_bit 8 (htons (Data_Block d))));
          It = put_bytes It (DataBuffer d)
      in (It, 2 + 2 + length (DataBuffer d)))"

section \<open>Acknowledgment\<close>

record Acknowledgment =
  Ack_Type :: uint16
  Ack_Block :: uint16

definition Acknowledgment_ctor :: "uint16 \<Rightarrow> error + Acknowledgment" where
  "Acknowledgment_ctor Block =
     (if \<not> Block \<ge> 1 then Inl AssertionFailed
      else Inr \<lparr>Ack_Type = AcknowledgmentPacket, Ack_Block = Block\<rparr>)"

definition Acknowledgment_serialize :: "Acknowledgment \<Rightarrow> uint8 list \<times> size_t" where
  "Acknowledgment_serialize a =
     (let It = [];
          It = put It (ucast (drop_bit 0 (htons (Ack_Type a))));
          It = put It (ucast (drop_bit 8 (htons (Ack_Type a))));
          It = put It (ucast (drop_bit 0 (htons (Ack_Block a))));
          It = put It (ucast (drop_bit 8 (htons (Ack_Block a))))
      in (It, 2 + 2))"

section \<open>Error\<close>

record Error =
  Error_Type :: uint16
  ErrorCode :: uint16
  ErrorMessage :: string

text \<open>\<open>Error(std::uint16_t, std::string_view)\<close>\<close>

definition Error_ctor :: "uint16 \<Rightarrow> string \<Rightarrow> error + Error" where
  "Error_ctor Code Message =
     (if \<not> (Code \<ge> 0 \<and> Code \<le> 8) then Inl AssertionFailed
      else Inr \<lparr>Error_Type = ErrorPacket, ErrorCode = Code, ErrorMessage = Message\<rparr>)"

text \<open>\<open>Error(std::uint16_t, std::string &&)\<close>\<close>

definition Error_ctor_move :: "uint16 \<Rightarrow> string \<Rightarrow> error + Error" where
  "Error_ctor_move Code Message =
     (if \<not> (Code \<ge> 0 \<and> Code \<le> 8) then Inl AssertionFailed
      else Inr \<lparr>Error_Type = ErrorPacket, ErrorCode = Code, ErrorMessage = Message\<rparr>)"

definition Error_serialize :: "Error \<Rightarrow> uint8 list \<times> size_t" where
  "Error_serialize e =
     (let It = [];
          It = put It (ucast (drop_bit 0 (htons (Error_Type e))));
          It = put It (ucast (drop_bit 8 (htons (Error_Type e))));
          It = put It (ucast (drop_bit 0 (htons (ErrorCode e))));
          It = put It (ucast (drop_bit 8 (htons (ErrorCode e))));
          It = put_chars It (ErrorMessage e);
          It = put It 0
      in (It, 2 + 2 + length (ErrorMessage e) + 1))"

section \<open>OptionAcknowledgment\<close>

text \<open>
  \<open>Options\<close> is a \<open>std::unordered_map\<close> from \<open>std::string\<close> to \<open>std::string\<close>. What \<open>serialize\<close>
  uses of it is one traversal, which visits every entry once in an order the hash table
  fixes. The map is the list of its entries in that order; a \<open>std::unordered_map\<close> holds no
  key twice, which is \<open>unordered_map_inv\<close>.
\<close>

type_synonym unordered_map = "(string \<times> string) list"

definition unordered_map_inv :: "unordered_map \<Rightarrow> bool" where
  "unordered_map_inv m = distinct (map fst m)"

record OptionAcknowledgment =
  OAck_Type :: uint16
  Options :: unordered_map

definition OptionAcknowledgment_ctor :: "unordered_map \<Rightarrow> OptionAcknowledgment" where
  "OptionAcknowledgment_ctor Opts =
     \<lparr>OAck_Type = OptionAcknowledgmentPacket, Options = Opts\<rparr>"

text \<open>One round of \<open>for (const auto &[Key, Value] : Options)\<close>.\<close>

definition OptionAcknowledgment_step ::
  "string \<times> string \<Rightarrow> OutputIterator \<times> size_t \<Rightarrow> OutputIterator \<times> size_t" where
  "OptionAcknowledgment_step kv st =
     (case (kv, st) of ((Key, Value), (It, OptionsSize)) \<Rightarrow>
        let It = put_chars It Key;
            It = put It 0;
            It = put_chars It Value;
            It = put It 0
        in (It, OptionsSize + (length Key + length Value + 2)))"

definition OptionAcknowledgment_serialize :: "OptionAcknowledgment \<Rightarrow> uint8 list \<times> size_t" where
  "OptionAcknowledgment_serialize a =
     (let It = [];
          It = put It (ucast (drop_bit 0 (htons (OAck_Type a))));
          It = put It (ucast (drop_bit 8 (htons (OAck_Type a))));
          (It, OptionsSize) = fold OptionAcknowledgment_step (Options a) (It, 0)
      in (It, 2 + OptionsSize))"

section \<open>Wire format vocabulary\<close>

text \<open>The two bytes of a 16-bit value in network (big-endian) order: high byte first.\<close>

definition be16 :: "uint16 \<Rightarrow> uint8 list" where
  "be16 x = [ucast (drop_bit 8 x), ucast x]"

text \<open>A string has no embedded null byte.\<close>

definition no_null :: "string \<Rightarrow> bool" where
  "no_null S = (CHR 0x00 \<notin> set S)"

text \<open>One option on the wire: name bytes, a null byte, value bytes, a null byte.\<close>

definition encode_option :: "string \<times> string \<Rightarrow> uint8 list" where
  "encode_option nv = map of_char (fst nv) @ [0x00] @ map of_char (snd nv) @ [0x00]"

text \<open>The number of bytes of one option on the wire.\<close>

definition option_size :: "string \<times> string \<Rightarrow> nat" where
  "option_size nv = length (fst nv) + length (snd nv) + 2"

section \<open>The packet sum and the invariants of the data model\<close>

text \<open>
  The five packet classes as one sum; \<open>serialize\<close> on a packet is the member function of
  its class. \<open>Request::serialize\<close> is the only one with an assertion.
\<close>

datatype Packet =
    RequestP Request
  | DataP Data
  | AcknowledgmentP Acknowledgment
  | ErrorP Error
  | OptionAcknowledgmentP OptionAcknowledgment

definition serialize :: "Packet \<Rightarrow> error + (uint8 list \<times> size_t)" where
  "serialize p =
     (case p of
        RequestP r \<Rightarrow> Request_serialize r
      | DataP d \<Rightarrow> Inr (Data_serialize d)
      | AcknowledgmentP a \<Rightarrow> Inr (Acknowledgment_serialize a)
      | ErrorP e \<Rightarrow> Inr (Error_serialize e)
      | OptionAcknowledgmentP a \<Rightarrow> Inr (OptionAcknowledgment_serialize a))"

text \<open>
  The invariants of section 3 of the specification, in its words: what "well-formed"
  and "satisfies the invariants" mean in the properties below. Strings are ASCII and
  never contain the null byte. The opcode is the discriminant of the sum: each class
  fixes its \<open>Type_\<close> member (a default member initializer in four classes, the
  constructor assertion in \<open>Request\<close>).
\<close>

definition ascii :: "string \<Rightarrow> bool" where
  "ascii S = list_all (\<lambda>c. (of_char c :: nat) < 128) S"

definition wire_string :: "string \<Rightarrow> bool" where
  "wire_string S = (ascii S \<and> no_null S)"

text \<open>
  Request: the opcode is one of the two request opcodes; filename and mode are non-empty
  strings; the options are a sequence of (name, value) pairs, which for the two vectors
  of the class means equal lengths; option names are unique.
\<close>

definition Request_inv :: "Request \<Rightarrow> bool" where
  "Request_inv r =
     ((Request_Type r = ReadRequest \<or> Request_Type r = WriteRequest) \<and>
      Filename r \<noteq> [] \<and> wire_string (Filename r) \<and>
      Mode r \<noteq> [] \<and> wire_string (Mode r) \<and>
      length (OptionsNames r) = length (OptionsValues r) \<and>
      list_all wire_string (OptionsNames r) \<and> list_all wire_string (OptionsValues r) \<and>
      distinct (OptionsNames r))"

text \<open>Data: block at least 1, payload of at most 512 bytes.\<close>

definition Data_inv :: "Data \<Rightarrow> bool" where
  "Data_inv d =
     (Data_Type d = DataPacket \<and> 1 \<le> unat (Data_Block d) \<and>
      length (DataBuffer d) \<le> 512)"

text \<open>Acknowledgment: block at least 1.\<close>

definition Acknowledgment_inv :: "Acknowledgment \<Rightarrow> bool" where
  "Acknowledgment_inv a =
     (Ack_Type a = AcknowledgmentPacket \<and> 1 \<le> unat (Ack_Block a))"

text \<open>Error: code at most 8; the message is a string and may be empty.\<close>

definition Error_inv :: "Error \<Rightarrow> bool" where
  "Error_inv e =
     (Error_Type e = ErrorPacket \<and> unat (ErrorCode e) \<le> 8 \<and>
      wire_string (ErrorMessage e))"

text \<open>OptionAcknowledgment: a mapping from names to values, both strings.\<close>

definition OptionAcknowledgment_inv :: "OptionAcknowledgment \<Rightarrow> bool" where
  "OptionAcknowledgment_inv a =
     (OAck_Type a = OptionAcknowledgmentPacket \<and> unordered_map_inv (Options a) \<and>
      list_all wire_string (map fst (Options a)) \<and> list_all wire_string (map snd (Options a)))"

definition Packet_inv :: "Packet \<Rightarrow> bool" where
  "Packet_inv p =
     (case p of
        RequestP r \<Rightarrow> Request_inv r
      | DataP d \<Rightarrow> Data_inv d
      | AcknowledgmentP a \<Rightarrow> Acknowledgment_inv a
      | ErrorP e \<Rightarrow> Error_inv e
      | OptionAcknowledgmentP a \<Rightarrow> OptionAcknowledgment_inv a)"

text \<open>
  The length of the encoding as the specification computes it in advance, from the
  fields alone.
\<close>

definition wire_size :: "Packet \<Rightarrow> nat" where
  "wire_size p =
     (case p of
        RequestP r \<Rightarrow>
          2 + length (Filename r) + length (Mode r) + 2 +
          (\<Sum>(name, val) \<leftarrow> zip (OptionsNames r) (OptionsValues r). length name + length val + 2)
      | DataP d \<Rightarrow> 4 + length (DataBuffer d)
      | AcknowledgmentP a \<Rightarrow> 4
      | ErrorP e \<Rightarrow> length (ErrorMessage e) + 5
      | OptionAcknowledgmentP a \<Rightarrow>
          2 + (\<Sum>(name, val) \<leftarrow> Options a. length name + length val + 2))"

section \<open>The decoder\<close>

text \<open>
  Modelled from the spec: the error taxonomy of the decoder (section 7). The repository's
  parsing functions are not part of the source at hand.
\<close>

datatype DecodingError =
    UnknownOpcode
  | TruncatedPacket
  | MissingTerminator
  | TrailingBytes
  | InvalidMode
  | InvalidErrorCode
  | OversizedPayload
  | DuplicateOption

text \<open>
  Modelled from the spec: the outcome of \<open>decode\<close>: a packet, a decoding error, or a failure of
  the construction in step 3 of section 4.3, which re-validates the invariants and is
  not a decoding error.
\<close>

datatype decode_result =
    Decoded Packet
  | DecodingFailed DecodingError
  | ConstructionFailed

text \<open>
  Modelled from the spec: the validating constructors of section 4.1, which produce a value
  only when the invariants of section 3 hold.
\<close>

definition construct :: "Packet \<Rightarrow> decode_result" where
  "construct p = (if Packet_inv p then Decoded p else ConstructionFailed)"

text \<open>
  Modelled from the spec: reading a big-endian unsigned 16-bit integer from two bytes.
\<close>

definition read_u16 :: "uint8 \<Rightarrow> uint8 \<Rightarrow> uint16" where
  "read_u16 hi lo = push_bit 8 (ucast hi) OR ucast lo"

text \<open>
  Modelled from the spec: the string whose characters are the given bytes.
\<close>

definition string_of_bytes :: "uint8 list \<Rightarrow> string" where
  "string_of_bytes bs = map (\<lambda>b. char_of (unat b)) bs"

text \<open>
  Modelled from the spec: scanning for the next null byte (section 4.3): the bytes before it
  and the bytes after it, or \<open>None\<close> when the buffer ends without one.
\<close>

fun scan_null :: "uint8 list \<Rightarrow> (uint8 list \<times> uint8 list) option" where
  "scan_null [] = None"
| "scan_null (b # bs) =
     (if b = 0x00 then Some ([], bs)
      else case scan_null bs of None \<Rightarrow> None | Some (s, rest) \<Rightarrow> Some (b # s, rest))"

lemma scan_null_shorter: "scan_null bs = Some (s, rest) \<Longrightarrow> length rest < length bs"
  by (induction bs arbitrary: s rest) (auto split: if_splits option.splits)

text \<open>
  Modelled from the spec: \<open>parse_pairs\<close> of the option grammar (section 4.4), consuming the
  buffer two null-terminated strings at a time until it is exhausted; a fragment without
  its terminator is \<open>MissingTerminator\<close>.
\<close>

function parse_pairs :: "uint8 list \<Rightarrow> DecodingError + (string \<times> string) list" where
  "parse_pairs bs =
     (if bs = [] then Inr []
      else case scan_null bs of
        None \<Rightarrow> Inl MissingTerminator
      | Some (name, rest) \<Rightarrow>
          (case scan_null rest of
             None \<Rightarrow> Inl MissingTerminator
           | Some (val, rest') \<Rightarrow>
               (case parse_pairs rest' of
                  Inl e \<Rightarrow> Inl e
                | Inr ps \<Rightarrow> Inr ((string_of_bytes name, string_of_bytes val) # ps))))"
  by pat_completeness auto
termination
  by (relation "measure length") (auto dest!: scan_null_shorter scan_null_shorter [OF sym])

declare parse_pairs.simps [simp del]

text \<open>
  Modelled from the spec: the option tail of Request and OptionAcknowledgment (section 4.3):
  \<open>parse_pairs\<close>, then a repeated name is \<open>DuplicateOption\<close>.
\<close>

definition parse_options :: "uint8 list \<Rightarrow> DecodingError + (string \<times> string) list" where
  "parse_options bs =
     (case parse_pairs bs of
        Inl e \<Rightarrow> Inl e
      | Inr ps \<Rightarrow> if distinct (map fst ps) then Inr ps else Inl DuplicateOption)"

text \<open>
  Modelled from the spec: lower-casing of an ASCII letter, for the case-insensitive comparison
  of the transfer mode.
\<close>

definition to_lower :: "char \<Rightarrow> char" where
  "to_lower c =
     (if (0x41 :: nat) \<le> of_char c \<and> (of_char c :: nat) \<le> 0x5A
      then char_of ((of_char c :: nat) + 0x20) else c)"

text \<open>
  Modelled from the spec: the known transfer-mode names, compared case-insensitively; any
  other mode is rejected (section 4.3 chooses strict rejection).
\<close>

definition known_mode :: "string \<Rightarrow> bool" where
  "known_mode md = (map to_lower md = ''netascii'' \<or> map to_lower md = ''octet'')"

text \<open>
  Modelled from the spec: decoding the body of a Request (opcode 1 or 2), section 4.3.
\<close>

definition decode_Request :: "uint16 \<Rightarrow> uint8 list \<Rightarrow> decode_result" where
  "decode_Request opcode body =
     (case scan_null body of
        None \<Rightarrow> DecodingFailed MissingTerminator
      | Some (filename, rest) \<Rightarrow>
          (case scan_null rest of
             None \<Rightarrow> DecodingFailed MissingTerminator
           | Some (mode, rest') \<Rightarrow>
               if \<not> known_mode (string_of_bytes mode) then DecodingFailed InvalidMode
               else
                 (case parse_options rest' of
                    Inl e \<Rightarrow> DecodingFailed e
                  | Inr ps \<Rightarrow>
                      construct (RequestP
                        \<lparr>Request_Type = opcode, Filename = string_of_bytes filename,
                         Mode = string_of_bytes mode,
                         OptionsNames = map fst ps, OptionsValues = map snd ps\<rparr>))))"

text \<open>
  Modelled from the spec: decoding the body of a Data packet (opcode 3): at least four bytes in
  all, the block, then at most 512 bytes of payload.
\<close>

fun decode_Data :: "uint8 list \<Rightarrow> decode_result" where
  "decode_Data (hi # lo # payload) =
     (if length payload > 512 then DecodingFailed OversizedPayload
      else construct (DataP
        \<lparr>Data_Type = 0x03, Data_Block = read_u16 hi lo, DataBuffer = payload\<rparr>))"
| "decode_Data _ = DecodingFailed TruncatedPacket"

text \<open>
  Modelled from the spec: decoding the body of an Acknowledgment (opcode 4): exactly four
  bytes in all.
\<close>

fun decode_Acknowledgment :: "uint8 list \<Rightarrow> decode_result" where
  "decode_Acknowledgment [hi, lo] =
     construct (AcknowledgmentP \<lparr>Ack_Type = 0x04, Ack_Block = read_u16 hi lo\<rparr>)"
| "decode_Acknowledgment (hi # lo # extra) = DecodingFailed TrailingBytes"
| "decode_Acknowledgment _ = DecodingFailed TruncatedPacket"

text \<open>
  Modelled from the spec: decoding the body of an Error (opcode 5): the code, at most 8, then
  the message up to the first null byte, with nothing after it.
\<close>

fun decode_Error :: "uint8 list \<Rightarrow> decode_result" where
  "decode_Error (hi # lo # rest) =
     (if read_u16 hi lo > 8 then DecodingFailed InvalidErrorCode
      else case scan_null rest of
        None \<Rightarrow> DecodingFailed MissingTerminator
      | Some (message, extra) \<Rightarrow>
          if extra \<noteq> [] then DecodingFailed TrailingBytes
          else construct (ErrorP
            \<lparr>Error_Type = 0x05, ErrorCode = read_u16 hi lo,
             ErrorMessage = string_of_bytes message\<rparr>))"
| "decode_Error _ = DecodingFailed TruncatedPacket"

text \<open>
  Modelled from the spec: decoding the body of an OptionAcknowledgment (opcode 6).
\<close>

definition decode_OptionAcknowledgment :: "uint8 list \<Rightarrow> decode_result" where
  "decode_OptionAcknowledgment body =
     (case parse_options body of
        Inl e \<Rightarrow> DecodingFailed e
      | Inr ps \<Rightarrow> construct (OptionAcknowledgmentP \<lparr>OAck_Type = 0x06, Options = ps\<rparr>))"

text \<open>
  Modelled from the spec: \<open>decode\<close> (section 4.3): at least two bytes, the opcode big-endian,
  then dispatch on it. The specification names no error for a buffer shorter than two
  bytes; \<open>TruncatedPacket\<close> is used.
\<close>

fun decode :: "uint8 list \<Rightarrow> decode_result" where
  "decode (o1 # o2 # body) =
     (let opcode = read_u16 o1 o2 in
      if opcode = 0x01 \<or> opcode = 0x02 then decode_Request opcode body
      else if opcode = 0x03 then decode_Data body
      else if opcode = 0x04 then decode_Acknowledgment body
      else if opcode = 0x05 then decode_Error body
      else if opcode = 0x06 then decode_OptionAcknowledgment body
      else DecodingFailed UnknownOpcode)"
| "decode _ = DecodingFailed TruncatedPacket"

text \<open>
  Modelled from the spec: a packet whose transfer mode the decoder accepts: a Request with a
  known mode, or a packet of another variant.
\<close>

definition mode_known :: "Packet \<Rightarrow> bool" where
  "mode_known p = (case p of RequestP r \<Rightarrow> known_mode (Mode r) | _ \<Rightarrow> True)"

text \<open>
  Modelled from the spec: equality of packets (section 4.1): structural, with the option
  collections of Request and OptionAcknowledgment compared as mappings from name to value.
\<close>

fun Packet_eq :: "Packet \<Rightarrow> Packet \<Rightarrow> bool" where
  "Packet_eq (RequestP a) (RequestP b) =
     (Request_Type a = Request_Type b \<and> Filename a = Filename b \<and> Mode a = Mode b \<and>
      map_of (zip (OptionsNames a) (OptionsValues a)) =
        map_of (zip (OptionsNames b) (OptionsValues b)))"
| "Packet_eq (DataP a) (DataP b) = (a = b)"
| "Packet_eq (AcknowledgmentP a) (AcknowledgmentP b) = (a = b)"
| "Packet_eq (ErrorP a) (ErrorP b) = (a = b)"
| "Packet_eq (OptionAcknowledgmentP a) (OptionAcknowledgmentP b) =
     (OAck_Type a = OAck_Type b \<and> map_of (Options a) = map_of (Options b))"
| "Packet_eq _ _ = False"

section \<open>Bytes and strings\<close>

lemma htons_low_byte: "(ucast (drop_bit 0 (htons x)) :: uint8) = ucast (drop_bit 8 x)"
  unfolding htons_def
  by (rule bit_word_eqI) (auto simp add: bit_simps)

lemma htons_high_byte: "(ucast (drop_bit 8 (htons x)) :: uint8) = ucast x"
  unfolding htons_def
  by (rule bit_word_eqI) (auto simp add: bit_simps)

lemma be16_value: "unat (be16 x ! 0) * 256 + unat (be16 x ! 1) = unat x"
proof -
  have b: "unat x < 65536" using unsigned_less [of x] by simp
  have hi: "unat (ucast (drop_bit 8 x) :: uint8) = unat x div 256"
    using b by (simp add: unsigned_ucast_eq unat_drop_bit_eq drop_bit_eq_div take_bit_eq_mod unat_div_distrib)
  have lo: "unat (ucast x :: uint8) = unat x mod 256"
    by (simp add: unsigned_ucast_eq take_bit_eq_mod)
  show ?thesis unfolding be16_def using hi lo by simp
qed

lemma unat_of_char: "unat (of_char c :: uint8) = of_char c"
proof -
  have "(of_char c :: uint8) = of_nat (of_char c)" by (simp add: of_nat_of_char)
  then have "unat (of_char c :: uint8) = of_char c mod 256"
    by (simp only: unat_of_nat) simp
  then show ?thesis by simp
qed

lemma of_char_eq_0_iff: "(of_char c :: uint8) = 0 \<longleftrightarrow> c = CHR 0x00"
proof
  assume "(of_char c :: uint8) = 0"
  then have "unat (of_char c :: uint8) = 0" by simp
  then have "(of_char c :: nat) = of_char (CHR 0x00)" by (simp add: unat_of_char)
  then show "c = CHR 0x00" by (simp only: of_char_eq_iff)
next
  assume "c = CHR 0x00" then show "(of_char c :: uint8) = 0" by simp
qed

lemma no_null_bytes: "no_null S \<longleftrightarrow> 0 \<notin> set (map of_char S :: uint8 list)"
  by (auto simp add: no_null_def of_char_eq_0_iff image_iff)

lemma put_chars_eq: "put_chars It S = It @ map of_char S"
  unfolding put_chars_def by (induction S arbitrary: It) (simp_all add: put_def)

lemma put_bytes_eq: "put_bytes It B = It @ B"
  unfolding put_bytes_def by (induction B arbitrary: It) (simp_all add: put_def)

lemma Acknowledgment_serialize_eq:
  "Acknowledgment_serialize a = (be16 (Ack_Type a) @ be16 (Ack_Block a), 4)"
  by (simp add: Acknowledgment_serialize_def Let_def put_def htons_low_byte htons_high_byte
      be16_def del: drop_bit_0)

lemma Data_serialize_eq:
  "Data_serialize d =
     (be16 (Data_Type d) @ be16 (Data_Block d) @ DataBuffer d, 4 + length (DataBuffer d))"
  by (simp add: Data_serialize_def Let_def put_def put_bytes_eq htons_low_byte htons_high_byte
      be16_def del: drop_bit_0)

lemma Error_serialize_eq:
  "Error_serialize e =
     (be16 (Error_Type e) @ be16 (ErrorCode e) @ map of_char (ErrorMessage e) @ [0],
      length (ErrorMessage e) + 5)"
  by (simp add: Error_serialize_def Let_def put_def put_chars_eq htons_low_byte htons_high_byte
      be16_def del: drop_bit_0)

lemma length_be16 [simp]: "length (be16 x) = 2"
  by (simp add: be16_def)

lemma be16_numeral [simp]:
  "be16 1 = [0, 1]" "be16 2 = [0, 2]" "be16 3 = [0, 3]" "be16 4 = [0, 4]" "be16 5 = [0, 5]" "be16 6 = [0, 6]"
  by (simp_all add: be16_def drop_bit_eq_div)

section \<open>Acknowledgment, Data and Error: constructors and layout\<close>

text \<open>
  C8. For every block \<open>b \<ge> 1\<close>, \<open>Acknowledgment(b)\<close> is constructed and its \<open>serialize\<close>
  writes exactly four bytes, \<open>00 04\<close> followed by \<open>b\<close> high byte first, and returns 4;
  \<open>Acknowledgment(5)\<close> gives \<open>00 04 00 05\<close>.
\<close>

theorem Acknowledgment_serialize_fixed:
  "(1 \<le> unat b \<longrightarrow>
      Acknowledgment_ctor b = Inr \<lparr>Ack_Type = 4, Ack_Block = b\<rparr> \<and>
      Acknowledgment_serialize \<lparr>Ack_Type = 4, Ack_Block = b\<rparr> = ([0x00, 0x04] @ be16 b, 4) \<and>
      length (fst (Acknowledgment_serialize \<lparr>Ack_Type = 4, Ack_Block = b\<rparr>)) = 4 \<and>
      unat (be16 b ! 0) * 256 + unat (be16 b ! 1) = unat b) \<and>
   Acknowledgment_ctor 5 = Inr \<lparr>Ack_Type = 4, Ack_Block = 5\<rparr> \<and>
   Acknowledgment_serialize \<lparr>Ack_Type = 4, Ack_Block = 5\<rparr> = ([0x00, 0x04, 0x00, 0x05], 4)"
  using be16_value [of b]
  by (simp add: Acknowledgment_ctor_def Acknowledgment_serialize_eq word_le_nat_alt)

theorem Acknowledgment_serialize_fixed_witness:
  "1 \<le> unat (258 :: uint16) \<and>
   Acknowledgment_ctor 258 = Inr \<lparr>Ack_Type = 4, Ack_Block = 258\<rparr> \<and>
   Acknowledgment_serialize \<lparr>Ack_Type = 4, Ack_Block = 258\<rparr> = ([0x00, 0x04, 0x01, 0x02], 4)"
  using Acknowledgment_serialize_fixed [of 258] by (simp add: be16_def drop_bit_eq_div)

text \<open>
  C5. The \<open>Acknowledgment\<close> constructor succeeds for every block \<open>b \<ge> 1\<close> and is
  rejected by its assertion for block 0.
\<close>

theorem Acknowledgment_ctor_block:
  "(1 \<le> unat b \<longrightarrow> Acknowledgment_ctor b = Inr \<lparr>Ack_Type = 4, Ack_Block = b\<rparr>) \<and>
   Acknowledgment_ctor 0 = Inl AssertionFailed"
  by (simp add: Acknowledgment_ctor_def word_le_nat_alt)

theorem Acknowledgment_ctor_block_witness:
  "1 \<le> unat (1 :: uint16) \<and> Acknowledgment_ctor 1 = Inr \<lparr>Ack_Type = 4, Ack_Block = 1\<rparr> \<and>
   1 \<le> unat (65535 :: uint16) \<and>
   Acknowledgment_ctor 65535 = Inr \<lparr>Ack_Type = 4, Ack_Block = 65535\<rparr>"
  using Acknowledgment_ctor_block [of 1] Acknowledgment_ctor_block [of 65535] by simp

text \<open>
  C4. Both \<open>Data\<close> constructors succeed for every block \<open>\<ge> 1\<close> with a payload of 0 to
  512 bytes, and are rejected by the range assertion for a payload of 513 bytes or more.
\<close>

theorem Data_ctor_range:
  "(1 \<le> unat b \<and> length Buffer \<le> 512 \<longrightarrow>
      Data_ctor b Buffer = Inr \<lparr>Data_Type = 3, Data_Block = b, DataBuffer = Buffer\<rparr> \<and>
      Data_ctor_move b Buffer = Inr \<lparr>Data_Type = 3, Data_Block = b, DataBuffer = Buffer\<rparr>) \<and>
   (513 \<le> length Buffer \<longrightarrow>
      Data_ctor b Buffer = Inl AssertionFailed \<and> Data_ctor_move b Buffer = Inl AssertionFailed)"
  by (simp add: Data_ctor_def Data_ctor_move_def word_le_nat_alt)

theorem Data_ctor_range_witness:
  "1 \<le> unat (1 :: uint16) \<and> length (replicate 512 (0 :: uint8)) \<le> 512 \<and>
   Data_ctor 1 (replicate 512 0) =
     Inr \<lparr>Data_Type = 3, Data_Block = 1, DataBuffer = replicate 512 0\<rparr> \<and>
   Data_ctor 1 [] = Inr \<lparr>Data_Type = 3, Data_Block = 1, DataBuffer = []\<rparr> \<and>
   513 \<le> length (replicate 513 (0 :: uint8)) \<and>
   Data_ctor 1 (replicate 513 0) = Inl AssertionFailed"
  using Data_ctor_range [of 1 "replicate 512 0"] Data_ctor_range [of 1 "[]"]
    Data_ctor_range [of 1 "replicate 513 0"]
  by simp

text \<open>
  C9. For a \<open>Data\<close> value with block \<open>\<ge> 1\<close> and at most 512 payload bytes, \<open>serialize\<close>
  writes \<open>00 03\<close>, the block high byte first, then the payload unchanged and nothing
  after it: \<open>4 + |payload|\<close> bytes, which is also the size returned.
\<close>

theorem Data_serialize_layout:
  "1 \<le> unat b \<and> length Buffer \<le> 512 \<longrightarrow>
     Data_ctor b Buffer = Inr \<lparr>Data_Type = 3, Data_Block = b, DataBuffer = Buffer\<rparr> \<and>
     Data_serialize \<lparr>Data_Type = 3, Data_Block = b, DataBuffer = Buffer\<rparr> =
       ([0x00, 0x03] @ be16 b @ Buffer, 4 + length Buffer) \<and>
     length (fst (Data_serialize \<lparr>Data_Type = 3, Data_Block = b, DataBuffer = Buffer\<rparr>)) =
       4 + length Buffer \<and>
     unat (be16 b ! 0) * 256 + unat (be16 b ! 1) = unat b"
  using be16_value [of b]
  by (simp add: Data_ctor_def Data_serialize_eq word_le_nat_alt)

theorem Data_serialize_layout_witness:
  "1 \<le> unat (513 :: uint16) \<and> length [0x41, 0x00, 0x42, 0x00 :: uint8] \<le> 512 \<and>
   Data_serialize \<lparr>Data_Type = 3, Data_Block = 513, DataBuffer = [0x41, 0x00, 0x42, 0x00]\<rparr> =
     ([0x00, 0x03, 0x02, 0x01, 0x41, 0x00, 0x42, 0x00], 8)"
  using Data_serialize_layout [of 513 "[0x41, 0x00, 0x42, 0x00]"]
  by (simp add: be16_def drop_bit_eq_div)

text \<open>
  C7. For an \<open>Error\<close> value with code at most 8 and a message without a null byte (the
  empty one included), \<open>serialize\<close> writes \<open>00 05\<close>, the code high byte first, the message
  bytes and one \<open>00\<close>, the only null byte after the four header bytes, and returns
  \<open>|message| + 5\<close>; \<open>Error(1, "File not found")\<close> gives \<open>00 05 00 01\<close>, the ASCII bytes
  of the message and \<open>00\<close>.
\<close>

theorem Error_serialize_layout:
  "(unat c \<le> 8 \<and> no_null Message \<longrightarrow>
      Error_ctor c Message = Inr \<lparr>Error_Type = 5, ErrorCode = c, ErrorMessage = Message\<rparr> \<and>
      Error_serialize \<lparr>Error_Type = 5, ErrorCode = c, ErrorMessage = Message\<rparr> =
        ([0x00, 0x05] @ be16 c @ map of_char Message @ [0x00], length Message + 5) \<and>
      length (fst (Error_serialize \<lparr>Error_Type = 5, ErrorCode = c, ErrorMessage = Message\<rparr>)) =
        length Message + 5 \<and>
      count_list (drop 4 (fst (Error_serialize
        \<lparr>Error_Type = 5, ErrorCode = c, ErrorMessage = Message\<rparr>))) 0x00 = 1 \<and>
      unat (be16 c ! 0) * 256 + unat (be16 c ! 1) = unat c) \<and>
   Error_ctor 1 ''File not found'' =
     Inr \<lparr>Error_Type = 5, ErrorCode = 1, ErrorMessage = ''File not found''\<rparr> \<and>
   Error_serialize \<lparr>Error_Type = 5, ErrorCode = 1, ErrorMessage = ''File not found''\<rparr> =
     ([0x00, 0x05, 0x00, 0x01] @ map of_char ''File not found'' @ [0x00], 19) \<and>
   map of_char ''File not found'' =
     [0x46, 0x69, 0x6C, 0x65, 0x20, 0x6E, 0x6F, 0x74, 0x20, 0x66, 0x6F, 0x75, 0x6E, 0x64 :: uint8]"
proof -
  have "count_list (map of_char Message) (0 :: uint8) = 0" if "no_null Message"
    using that by (simp add: no_null_bytes)
  then show ?thesis
    using be16_value [of c]
    by (simp add: Error_ctor_def Error_ctor_move_def Error_serialize_eq word_le_nat_alt)
qed

theorem Error_serialize_layout_witness:
  "unat (0 :: uint16) \<le> 8 \<and> no_null [] \<and>
   Error_serialize \<lparr>Error_Type = 5, ErrorCode = 0, ErrorMessage = []\<rparr> =
     ([0x00, 0x05, 0x00, 0x00, 0x00], 5)"
  using Error_serialize_layout [of 0 "[]"]
  by (simp add: be16_def no_null_def)

section \<open>Options, Request and the size returned\<close>

lemma length_encode_option: "length (encode_option nv) = option_size nv"
  by (simp add: encode_option_def option_size_def)

lemma length_concat_encode_option:
  "length (concat (map encode_option ps)) = sum_list (map option_size ps)"
  by (induction ps) (simp_all add: length_encode_option)

lemma Request_option_step_eq:
  "Request_option_step r Idx (It, k) =
     (It @ encode_option (OptionsNames r ! Idx, OptionsValues r ! Idx),
      k + option_size (OptionsNames r ! Idx, OptionsValues r ! Idx))"
  by (simp add: Request_option_step_def Let_def put_chars_eq put_def encode_option_def
      option_size_def)

lemma Request_options_loop:
  "fold (Request_option_step r) [0 ..< n] (It, k) =
     (It @ concat (map (\<lambda>Idx. encode_option (OptionsNames r ! Idx, OptionsValues r ! Idx)) [0 ..< n]),
      k + sum_list (map (\<lambda>Idx. option_size (OptionsNames r ! Idx, OptionsValues r ! Idx)) [0 ..< n]))"
  by (induction n) (simp_all add: Request_option_step_eq)

lemma map_index_zip:
  "length xs = length ys \<Longrightarrow> map (\<lambda>i. f (xs ! i, ys ! i)) [0 ..< length xs] = map f (zip xs ys)"
  by (rule nth_equalityI) simp_all

lemma OptionAcknowledgment_step_eq:
  "OptionAcknowledgment_step kv (It, k) = (It @ encode_option kv, k + option_size kv)"
  by (cases kv)
    (simp add: OptionAcknowledgment_step_def Let_def put_chars_eq put_def encode_option_def
      option_size_def)

lemma OptionAcknowledgment_loop:
  "fold OptionAcknowledgment_step m (It, k) =
     (It @ concat (map encode_option m), k + sum_list (map option_size m))"
  by (induction m arbitrary: It k) (simp_all add: OptionAcknowledgment_step_eq)

lemma Request_serialize_eq:
  assumes "length (OptionsNames r) = length (OptionsValues r)"
  shows "Request_serialize r =
     Inr (be16 (Request_Type r) @ map of_char (Filename r) @ [0] @ map of_char (Mode r) @ [0] @
            concat (map encode_option (zip (OptionsNames r) (OptionsValues r))),
          2 + length (Filename r) + length (Mode r) + 2 +
            sum_list (map option_size (zip (OptionsNames r) (OptionsValues r))))"
  using assms map_index_zip [OF assms, of encode_option] map_index_zip [OF assms, of option_size]
  by (simp add: Request_serialize_def Let_def put_def put_chars_eq Request_options_loop
      htons_low_byte htons_high_byte be16_def del: drop_bit_0)

lemma OptionAcknowledgment_serialize_eq:
  "OptionAcknowledgment_serialize a =
     (be16 (OAck_Type a) @ concat (map encode_option (Options a)),
      2 + sum_list (map option_size (Options a)))"
  by (simp add: OptionAcknowledgment_serialize_def Let_def put_def OptionAcknowledgment_loop
      htons_low_byte htons_high_byte be16_def del: drop_bit_0)

lemma option_size_sum:
  "sum_list (map option_size ps) = (\<Sum>(name, val) \<leftarrow> ps. length name + length val + 2)"
  by (induction ps) (auto simp add: option_size_def)

text \<open>
  C1. For a packet of any of the five classes that satisfies the invariants of the data
  model, \<open>serialize\<close> does not fail, and the number of bytes it writes is the size it
  returns, which is \<open>wire_size\<close>: the sum the specification gives for each class.
\<close>

theorem serialize_size:
  "Packet_inv p \<Longrightarrow> \<exists>out. serialize p = Inr (out, length out) \<and> length out = wire_size p"
proof (cases p)
  case (RequestP r)
  moreover assume "Packet_inv p"
  ultimately have "length (OptionsNames r) = length (OptionsValues r)"
    by (simp add: Packet_inv_def Request_inv_def)
  then show ?thesis
    using RequestP
    by (simp add: serialize_def wire_size_def Request_serialize_eq length_concat_encode_option
        option_size_sum)
next
  case (DataP d)
  then show ?thesis by (simp add: serialize_def wire_size_def Data_serialize_eq)
next
  case (AcknowledgmentP a)
  then show ?thesis by (simp add: serialize_def wire_size_def Acknowledgment_serialize_eq)
next
  case (ErrorP e)
  then show ?thesis by (simp add: serialize_def wire_size_def Error_serialize_eq)
next
  case (OptionAcknowledgmentP a)
  then show ?thesis
    by (simp add: serialize_def wire_size_def OptionAcknowledgment_serialize_eq
        length_concat_encode_option option_size_sum)
qed

lemma wire_string_simps:
  "wire_string [] = True"
  "wire_string (c # S) = ((of_char c :: nat) < 128 \<and> c \<noteq> CHR 0x00 \<and> wire_string S)"
  by (auto simp add: wire_string_def ascii_def no_null_def)

theorem serialize_size_witness:
  "Packet_inv (RequestP \<lparr>Request_Type = 2, Filename = ''a.bin'', Mode = ''octet'',
       OptionsNames = [''blksize'', ''tsize''], OptionsValues = [''1024'', ''0'']\<rparr>) \<and>
   (\<exists>out. serialize (RequestP \<lparr>Request_Type = 2, Filename = ''a.bin'', Mode = ''octet'',
       OptionsNames = [''blksize'', ''tsize''], OptionsValues = [''1024'', ''0'']\<rparr>) =
       Inr (out, length out) \<and> length out = 35)"
proof -
  let ?p = "RequestP \<lparr>Request_Type = 2, Filename = ''a.bin'', Mode = ''octet'',
       OptionsNames = [''blksize'', ''tsize''], OptionsValues = [''1024'', ''0'']\<rparr>"
  have inv: "Packet_inv ?p"
    by (simp add: Packet_inv_def Request_inv_def wire_string_simps)
  have "wire_size ?p = 35" by (simp add: wire_size_def)
  with serialize_size [OF inv] inv show ?thesis by simp
qed

text \<open>
  C2. \<open>Request::serialize\<close> writes the opcode high byte first, the filename bytes, \<open>00\<close>,
  the mode bytes, \<open>00\<close>, then for each option in stored order its name bytes, \<open>00\<close>, its
  value bytes, \<open>00\<close>; \<open>Request(ReadRequest, "file.txt", "octet")\<close> gives
  \<open>00 01 66 69 6C 65 2E 74 78 74 00 6F 63 74 65 74 00\<close>.
\<close>

theorem Request_serialize_layout:
  "(length (OptionsNames r) = length (OptionsValues r) \<longrightarrow>
      (\<exists>n. Request_serialize r =
         Inr (be16 (Request_Type r) @ map of_char (Filename r) @ [0x00] @
              map of_char (Mode r) @ [0x00] @
              concat (map (\<lambda>(name, val). map of_char name @ [0x00] @ map of_char val @ [0x00])
                (zip (OptionsNames r) (OptionsValues r))), n))) \<and>
   Request_ctor ReadRequest ''file.txt'' ''octet'' =
     Inr \<lparr>Request_Type = 1, Filename = ''file.txt'', Mode = ''octet'',
          OptionsNames = [], OptionsValues = []\<rparr> \<and>
   Request_serialize \<lparr>Request_Type = 1, Filename = ''file.txt'', Mode = ''octet'',
          OptionsNames = [], OptionsValues = []\<rparr> =
     Inr ([0x00, 0x01, 0x66, 0x69, 0x6C, 0x65, 0x2E, 0x74, 0x78, 0x74, 0x00,
           0x6F, 0x63, 0x74, 0x65, 0x74, 0x00], 17)"
proof -
  have "encode_option = (\<lambda>(name, val). map of_char name @ [0x00] @ map of_char val @ [0x00])"
    by (auto simp add: encode_option_def fun_eq_iff)
  then show ?thesis
    by (simp add: Request_serialize_eq Request_ctor_def)
qed

theorem Request_serialize_layout_witness:
  "length [''blksize'', ''tsize''] = length [''1024'', ''0''] \<and>
   Request_serialize \<lparr>Request_Type = 2, Filename = ''f'', Mode = ''octet'',
       OptionsNames = [''blksize'', ''tsize''], OptionsValues = [''1024'', ''0'']\<rparr> =
     Inr ([0x00, 0x02, 0x66, 0x00, 0x6F, 0x63, 0x74, 0x65, 0x74, 0x00,
           0x62, 0x6C, 0x6B, 0x73, 0x69, 0x7A, 0x65, 0x00, 0x31, 0x30, 0x32, 0x34, 0x00,
           0x74, 0x73, 0x69, 0x7A, 0x65, 0x00, 0x30, 0x00], 31)"
proof -
  let ?r = "\<lparr>Request_Type = 2, Filename = ''f'', Mode = ''octet'',
       OptionsNames = [''blksize'', ''tsize''], OptionsValues = [''1024'', ''0'']\<rparr>"
  have n: "snd (projr (Request_serialize ?r)) = 31"
    by (simp add: Request_serialize_eq option_size_def)
  show ?thesis
    using Request_serialize_layout [of ?r] n by auto
qed

text \<open>
  C10. The two option constructors of \<open>Request\<close> store the name and value vectors as
  given, of whatever lengths. \<open>serialize\<close> asserts that the lengths are equal: for equal
  lengths the assertion holds and the \<open>i\<close>-th encoded pair is the \<open>i\<close>-th name and the
  \<open>i\<close>-th value; for unequal lengths the assertion fails.
\<close>

theorem Request_options_parallel:
  "(Ty = ReadRequest \<or> Ty = WriteRequest \<longrightarrow>
      Request_ctor_options Ty Fn Md Names Values =
        Inr \<lparr>Request_Type = Ty, Filename = Fn, Mode = Md,
             OptionsNames = Names, OptionsValues = Values\<rparr> \<and>
      Request_ctor_options_move Ty Fn Md Names Values =
        Inr \<lparr>Request_Type = Ty, Filename = Fn, Mode = Md,
             OptionsNames = Names, OptionsValues = Values\<rparr>) \<and>
   (length Names = length Values \<longrightarrow>
      Request_serialize \<lparr>Request_Type = Ty, Filename = Fn, Mode = Md,
             OptionsNames = Names, OptionsValues = Values\<rparr> =
        Inr (be16 Ty @ map of_char Fn @ [0x00] @ map of_char Md @ [0x00] @
             concat (map (\<lambda>i. map of_char (Names ! i) @ [0x00] @ map of_char (Values ! i) @ [0x00])
               [0 ..< length Names]),
             2 + length Fn + length Md + 2 +
             (\<Sum>i \<leftarrow> [0 ..< length Names]. length (Names ! i) + length (Values ! i) + 2))) \<and>
   (length Names \<noteq> length Values \<longrightarrow>
      Request_serialize \<lparr>Request_Type = Ty, Filename = Fn, Mode = Md,
             OptionsNames = Names, OptionsValues = Values\<rparr> = Inl AssertionFailed)"
proof -
  let ?r = "\<lparr>Request_Type = Ty, Filename = Fn, Mode = Md,
             OptionsNames = Names, OptionsValues = Values\<rparr>"
  have ctor: "Ty = ReadRequest \<or> Ty = WriteRequest \<Longrightarrow>
      Request_ctor_options Ty Fn Md Names Values =
        Inr \<lparr>Request_Type = Ty, Filename = Fn, Mode = Md,
             OptionsNames = Names, OptionsValues = Values\<rparr> \<and>
      Request_ctor_options_move Ty Fn Md Names Values =
        Inr \<lparr>Request_Type = Ty, Filename = Fn, Mode = Md,
             OptionsNames = Names, OptionsValues = Values\<rparr>"
    by (simp add: Request_ctor_options_def Request_ctor_def Request_ctor_options_move_def)
  have ok: "Request_serialize ?r =
        Inr (be16 Ty @ map of_char Fn @ [0x00] @ map of_char Md @ [0x00] @
             concat (map (\<lambda>i. map of_char (Names ! i) @ [0x00] @ map of_char (Values ! i) @ [0x00])
               [0 ..< length Names]),
             2 + length Fn + length Md + 2 +
             (\<Sum>i \<leftarrow> [0 ..< length Names]. length (Names ! i) + length (Values ! i) + 2))"
    if eq: "length Names = length Values"
    using eq
    by (simp add: Request_serialize_def Let_def put_def put_chars_eq Request_options_loop
        htons_low_byte htons_high_byte be16_def encode_option_def option_size_def
        del: drop_bit_0)
  have bad: "Request_serialize ?r = Inl AssertionFailed" if "length Names \<noteq> length Values"
    using that by (simp add: Request_serialize_def)
  from ctor ok bad show ?thesis by blast
qed

theorem Request_options_parallel_witness:
  "Request_ctor_options WriteRequest ''f'' ''octet'' [''blksize'', ''tsize''] [''1024'', ''0''] =
     Inr \<lparr>Request_Type = 2, Filename = ''f'', Mode = ''octet'',
          OptionsNames = [''blksize'', ''tsize''], OptionsValues = [''1024'', ''0'']\<rparr> \<and>
   length [''blksize'', ''tsize''] = length [''1024'', ''0''] \<and>
   Request_serialize \<lparr>Request_Type = 2, Filename = ''f'', Mode = ''octet'',
       OptionsNames = [''blksize'', ''tsize''], OptionsValues = [''1024'', ''0'']\<rparr> =
     Inr ([0x00, 0x02, 0x66, 0x00, 0x6F, 0x63, 0x74, 0x65, 0x74, 0x00,
           0x62, 0x6C, 0x6B, 0x73, 0x69, 0x7A, 0x65, 0x00, 0x31, 0x30, 0x32, 0x34, 0x00,
           0x74, 0x73, 0x69, 0x7A, 0x65, 0x00, 0x30, 0x00], 31) \<and>
   Request_ctor_options WriteRequest ''f'' ''octet'' [''blksize'', ''tsize''] [''1024''] =
     Inr \<lparr>Request_Type = 2, Filename = ''f'', Mode = ''octet'',
          OptionsNames = [''blksize'', ''tsize''], OptionsValues = [''1024'']\<rparr> \<and>
   length [''blksize'', ''tsize''] \<noteq> length [''1024''] \<and>
   Request_serialize \<lparr>Request_Type = 2, Filename = ''f'', Mode = ''octet'',
       OptionsNames = [''blksize'', ''tsize''], OptionsValues = [''1024'']\<rparr> = Inl AssertionFailed"
  using Request_options_parallel [of WriteRequest "''f''" "''octet''" "[''blksize'', ''tsize'']"
      "[''1024'', ''0'']"]
    Request_options_parallel [of WriteRequest "''f''" "''octet''" "[''blksize'', ''tsize'']"
      "[''1024'']"]
  by (simp add: be16_def drop_bit_eq_div upt_rec)

text \<open>
  C6 as stated fails: an empty filename, a filename with an embedded null byte, an empty
  mode and a repeated option name are all accepted.
\<close>

theorem Request_ctor_unchecked_counterexample:
  "Request_ctor ReadRequest [] ''octet'' =
     Inr \<lparr>Request_Type = 1, Filename = [], Mode = ''octet'',
          OptionsNames = [], OptionsValues = []\<rparr> \<and>
   Request_ctor_move WriteRequest [CHR ''a'', CHR 0x00, CHR ''b''] [] =
     Inr \<lparr>Request_Type = 2, Filename = [CHR ''a'', CHR 0x00, CHR ''b''], Mode = [],
          OptionsNames = [], OptionsValues = []\<rparr> \<and>
   Request_ctor_options ReadRequest ''f'' ''octet'' [''tsize'', ''tsize''] [''0'', ''1''] =
     Inr \<lparr>Request_Type = 1, Filename = ''f'', Mode = ''octet'',
          OptionsNames = [''tsize'', ''tsize''], OptionsValues = [''0'', ''1'']\<rparr> \<and>
   Request_ctor_options_move ReadRequest ''f'' ''octet'' [''tsize'', ''tsize''] [''0'', ''1''] =
     Inr \<lparr>Request_Type = 1, Filename = ''f'', Mode = ''octet'',
          OptionsNames = [''tsize'', ''tsize''], OptionsValues = [''0'', ''1'']\<rparr>"
  by (simp add: Request_ctor_def Request_ctor_move_def Request_ctor_options_def
      Request_ctor_options_move_def)

text \<open>
  C6, as the code has it. Each of the four \<open>Request\<close> constructors asserts only that the
  type is \<open>ReadRequest\<close> or \<open>WriteRequest\<close>: construction fails exactly when it is neither,
  and otherwise stores filename, mode and options as given.
\<close>

theorem Request_ctor_checks_type_only:
  "(Ty = ReadRequest \<or> Ty = WriteRequest \<longrightarrow>
      Request_ctor Ty Fn Md =
        Inr \<lparr>Request_Type = Ty, Filename = Fn, Mode = Md,
             OptionsNames = [], OptionsValues = []\<rparr> \<and>
      Request_ctor_move Ty Fn Md =
        Inr \<lparr>Request_Type = Ty, Filename = Fn, Mode = Md,
             OptionsNames = [], OptionsValues = []\<rparr> \<and>
      Request_ctor_options Ty Fn Md Names Values =
        Inr \<lparr>Request_Type = Ty, Filename = Fn, Mode = Md,
             OptionsNames = Names, OptionsValues = Values\<rparr> \<and>
      Request_ctor_options_move Ty Fn Md Names Values =
        Inr \<lparr>Request_Type = Ty, Filename = Fn, Mode = Md,
             OptionsNames = Names, OptionsValues = Values\<rparr>) \<and>
   (Ty \<noteq> ReadRequest \<and> Ty \<noteq> WriteRequest \<longrightarrow>
      Request_ctor Ty Fn Md = Inl AssertionFailed \<and>
      Request_ctor_move Ty Fn Md = Inl AssertionFailed \<and>
      Request_ctor_options Ty Fn Md Names Values = Inl AssertionFailed \<and>
      Request_ctor_options_move Ty Fn Md Names Values = Inl AssertionFailed)"
  by (simp add: Request_ctor_def Request_ctor_move_def Request_ctor_options_def
      Request_ctor_options_move_def)

theorem Request_ctor_checks_type_only_witness:
  "Request_ctor_options WriteRequest ''file.txt'' ''netascii'' [''timeout''] [''3''] =
     Inr \<lparr>Request_Type = 2, Filename = ''file.txt'', Mode = ''netascii'',
          OptionsNames = [''timeout''], OptionsValues = [''3'']\<rparr> \<and>
   Request_ctor DataPacket ''file.txt'' ''netascii'' = Inl AssertionFailed \<and>
   Request_ctor_options_move 0 ''file.txt'' ''netascii'' [] [] = Inl AssertionFailed"
  using Request_ctor_checks_type_only [of WriteRequest "''file.txt''" "''netascii''" "[''timeout'']" "[''3'']"]
    Request_ctor_checks_type_only [of DataPacket "''file.txt''" "''netascii''" "[]" "[]"]
    Request_ctor_checks_type_only [of 0 "''file.txt''" "''netascii''" "[]" "[]"]
  by simp

section \<open>Decoding what the serializers write\<close>

text \<open>The decoder on scenarios 4 and 5 of section 8 of the specification.\<close>

lemma decode_scenarios:
  "decode [0x00, 0x03, 0x00, 0x01] =
     Decoded (DataP \<lparr>Data_Type = 3, Data_Block = 1, DataBuffer = []\<rparr>)"
  "decode [0x00, 0x03] = DecodingFailed TruncatedPacket"
  by (simp_all add: read_u16_def construct_def Packet_inv_def Data_inv_def)

lemma read_u16_be16: "read_u16 (ucast (drop_bit 8 x)) (ucast x) = x"
  unfolding read_u16_def
  by (rule bit_word_eqI) (auto simp add: bit_simps)

lemma string_of_bytes_of_char: "string_of_bytes (map of_char S) = S"
  by (induction S) (simp_all add: string_of_bytes_def unat_of_char)

lemma scan_null_terminated:
  "0x00 \<notin> set s \<Longrightarrow> scan_null (s @ 0x00 # rest) = Some (s, rest)"
  by (induction s) auto

lemma wire_string_no_zero: "wire_string S \<Longrightarrow> 0x00 \<notin> set (map of_char S :: uint8 list)"
  by (simp add: wire_string_def no_null_bytes)

lemma scan_null_string:
  "wire_string S \<Longrightarrow> scan_null (map of_char S @ 0x00 # rest) = Some (map of_char S, rest)"
  by (rule scan_null_terminated) (rule wire_string_no_zero)

lemma parse_pairs_encode:
  "list_all wire_string (map fst ps) \<Longrightarrow> list_all wire_string (map snd ps) \<Longrightarrow>
   parse_pairs (concat (map encode_option ps)) = Inr ps"
proof (induction ps)
  case Nil
  show ?case by (subst parse_pairs.simps) simp
next
  case (Cons nv ps)
  obtain name val where nv: "nv = (name, val)" by (cases nv)
  from Cons.prems nv have ws: "wire_string name" "wire_string val" by simp_all
  from Cons have IH: "parse_pairs (concat (map encode_option ps)) = Inr ps" by simp
  let ?rest = "concat (map encode_option ps)"
  have shape: "concat (map encode_option (nv # ps)) =
      map of_char name @ 0x00 # (map of_char val @ 0x00 # ?rest)"
    by (simp add: nv encode_option_def)
  have "parse_pairs (map of_char name @ 0x00 # (map of_char val @ 0x00 # ?rest)) = Inr (nv # ps)"
    by (subst parse_pairs.simps)
      (simp add: scan_null_string ws IH string_of_bytes_of_char nv)
  with shape show ?case by simp
qed

lemma parse_options_encode:
  assumes "list_all wire_string (map fst ps)" "list_all wire_string (map snd ps)"
    "distinct (map fst ps)"
  shows "parse_options (concat (map encode_option ps)) = Inr ps"
  using assms by (simp add: parse_options_def parse_pairs_encode)

lemma decode_Request_serialize:
  assumes "Request_inv r" "known_mode (Mode r)" "Request_serialize r = Inr (bs, n)"
  shows "decode bs = Decoded (RequestP r)"
proof -
  obtain T Fn Md Names Values where r: "r = \<lparr>Request_Type = T, Filename = Fn, Mode = Md,
      OptionsNames = Names, OptionsValues = Values\<rparr>"
    by (cases r)
  let ?ps = "zip Names Values"
  from assms(1) have len: "length Names = length Values"
    and ty: "T = 1 \<or> T = 2"
    and fn: "wire_string Fn" and md: "wire_string Md"
    and names: "list_all wire_string Names"
    and vals: "list_all wire_string Values"
    and dist: "distinct Names"
    by (simp_all add: Request_inv_def r)
  from len have fst_ps: "map fst ?ps = Names" and snd_ps: "map snd ?ps = Values"
    by simp_all
  have opts: "parse_options (concat (map encode_option ?ps)) = Inr ?ps"
    by (rule parse_options_encode) (simp_all add: fst_ps snd_ps names vals dist)
  have bs: "bs = be16 T @ (map of_char Fn @ 0x00 #
      (map of_char Md @ 0x00 # concat (map encode_option ?ps)))"
    using assms(3) len by (simp add: Request_serialize_eq r)
  have body: "decode_Request T (map of_char Fn @ 0x00 #
      (map of_char Md @ 0x00 # concat (map encode_option ?ps))) = Decoded (RequestP r)"
    using assms(1,2)
    by (simp add: decode_Request_def scan_null_string fn md string_of_bytes_of_char opts
        fst_ps snd_ps construct_def Packet_inv_def r)
  show ?thesis
    unfolding bs be16_def using ty body
    by (auto simp add: read_u16_be16 Let_def)
qed

lemma decode_Data_serialize:
  assumes "Data_inv d" "Data_serialize d = (bs, n)"
  shows "decode bs = Decoded (DataP d)"
proof -
  obtain T B Buf where d: "d = \<lparr>Data_Type = T, Data_Block = B, DataBuffer = Buf\<rparr>"
    by (cases d)
  from assms(1) have ty: "T = 3" and len: "length Buf \<le> 512"
    by (simp_all add: Data_inv_def d)
  have bs: "bs = [0x00, 0x03, ucast (drop_bit 8 B), ucast B] @ Buf"
    using assms(2) ty by (simp add: Data_serialize_eq d be16_def)
  have op: "read_u16 0x00 0x03 = 3" by (simp add: read_u16_def)
  show ?thesis
    unfolding bs using assms(1) len ty
    by (simp add: op read_u16_be16 construct_def Packet_inv_def d)
qed

lemma decode_Acknowledgment_serialize:
  assumes "Acknowledgment_inv a" "Acknowledgment_serialize a = (bs, n)"
  shows "decode bs = Decoded (AcknowledgmentP a)"
proof -
  obtain T B where a: "a = \<lparr>Ack_Type = T, Ack_Block = B\<rparr>"
    by (cases a)
  from assms(1) have ty: "T = 4" by (simp add: Acknowledgment_inv_def a)
  have bs: "bs = [0x00, 0x04, ucast (drop_bit 8 B), ucast B]"
    using assms(2) ty by (simp add: Acknowledgment_serialize_eq a be16_def)
  have op: "read_u16 0x00 0x04 = 4" by (simp add: read_u16_def)
  show ?thesis
    unfolding bs using assms(1) ty
    by (simp add: op read_u16_be16 construct_def Packet_inv_def a)
qed

lemma decode_Error_serialize:
  assumes "Error_inv e" "Error_serialize e = (bs, n)"
  shows "decode bs = Decoded (ErrorP e)"
proof -
  obtain T C M where e: "e = \<lparr>Error_Type = T, ErrorCode = C, ErrorMessage = M\<rparr>"
    by (cases e)
  from assms(1) have ty: "T = 5" and code: "\<not> 8 < C" and msg: "wire_string M"
    by (simp_all add: Error_inv_def word_le_nat_alt word_less_nat_alt e)
  have bs: "bs = [0x00, 0x05, ucast (drop_bit 8 C), ucast C] @ (map of_char M @ 0x00 # [])"
    using assms(2) ty by (simp add: Error_serialize_eq e be16_def)
  have op: "read_u16 0x00 0x05 = 5" by (simp add: read_u16_def)
  show ?thesis
    unfolding bs using assms(1) ty code
    by (simp add: op read_u16_be16 construct_def Packet_inv_def e
        scan_null_string [OF msg] string_of_bytes_of_char)
qed

lemma decode_OptionAcknowledgment_serialize:
  assumes "OptionAcknowledgment_inv a" "OptionAcknowledgment_serialize a = (bs, n)"
  shows "decode bs = Decoded (OptionAcknowledgmentP a)"
proof -
  obtain T Opts where a: "a = \<lparr>OAck_Type = T, Options = Opts\<rparr>"
    by (cases a)
  from assms(1) have ty: "T = 6"
    and names: "list_all wire_string (map fst Opts)"
    and vals: "list_all wire_string (map snd Opts)"
    and dist: "distinct (map fst Opts)"
    by (simp_all add: OptionAcknowledgment_inv_def unordered_map_inv_def a)
  have bs: "bs = [0x00, 0x06] @ concat (map encode_option Opts)"
    using assms(2) ty by (simp add: OptionAcknowledgment_serialize_eq a)
  have op: "read_u16 0x00 0x06 = 6" by (simp add: read_u16_def)
  show ?thesis
    unfolding bs using assms(1) ty
    by (simp add: op decode_OptionAcknowledgment_def
        parse_options_encode [OF names vals dist] construct_def Packet_inv_def a)
qed

lemma serialize_defined: "Packet_inv p \<Longrightarrow> \<exists>bs n. serialize p = Inr (bs, n)"
proof (cases p)
  case (RequestP r)
  moreover assume "Packet_inv p"
  ultimately have "length (OptionsNames r) = length (OptionsValues r)"
    by (simp add: Packet_inv_def Request_inv_def)
  with RequestP show ?thesis by (simp add: serialize_def Request_serialize_eq)
qed (auto simp add: serialize_def intro: prod.exhaust)

lemma Packet_eq_refl: "Packet_eq p p"
  by (cases p) simp_all

text \<open>
  C3, as the decoder has it. For every packet that satisfies the invariants of the data
  model and, when it is a Request, carries a mode the decoder knows, \<open>serialize\<close> writes
  a byte sequence and decoding it gives the packet back: the same value, hence an equal
  one with options compared as mappings.
\<close>

theorem decode_serialize_known_mode:
  assumes "Packet_inv p" and "mode_known p"
  shows "\<exists>bs n. serialize p = Inr (bs, n) \<and>
           (\<exists>q. decode bs = Decoded q \<and> q = p \<and> Packet_eq q p)"
proof -
  from assms(1) obtain bs n where ser: "serialize p = Inr (bs, n)"
    using serialize_defined by blast
  have "decode bs = Decoded p"
  proof (cases p)
    case (RequestP r)
    with assms ser show ?thesis
      by (simp add: Packet_inv_def mode_known_def serialize_def decode_Request_serialize)
  next
    case (DataP d)
    with assms ser show ?thesis
      by (auto simp add: Packet_inv_def serialize_def intro: decode_Data_serialize)
  next
    case (AcknowledgmentP a)
    with assms ser show ?thesis
      by (auto simp add: Packet_inv_def serialize_def intro: decode_Acknowledgment_serialize)
  next
    case (ErrorP e)
    with assms ser show ?thesis
      by (auto simp add: Packet_inv_def serialize_def intro: decode_Error_serialize)
  next
    case (OptionAcknowledgmentP a)
    with assms ser show ?thesis
      by (auto simp add: Packet_inv_def serialize_def intro: decode_OptionAcknowledgment_serialize)
  qed
  with ser show ?thesis by (simp add: Packet_eq_refl)
qed

theorem decode_serialize_known_mode_witness:
  "Packet_inv (RequestP \<lparr>Request_Type = 2, Filename = ''f'', Mode = ''Octet'',
       OptionsNames = [''tsize'', ''blksize''], OptionsValues = [''0'', ''1024'']\<rparr>) \<and>
   mode_known (RequestP \<lparr>Request_Type = 2, Filename = ''f'', Mode = ''Octet'',
       OptionsNames = [''tsize'', ''blksize''], OptionsValues = [''0'', ''1024'']\<rparr>) \<and>
   serialize (RequestP \<lparr>Request_Type = 2, Filename = ''f'', Mode = ''Octet'',
       OptionsNames = [''tsize'', ''blksize''], OptionsValues = [''0'', ''1024'']\<rparr>) =
     Inr ([0x00, 0x02, 0x66, 0x00, 0x4F, 0x63, 0x74, 0x65, 0x74, 0x00,
           0x74, 0x73, 0x69, 0x7A, 0x65, 0x00, 0x30, 0x00,
           0x62, 0x6C, 0x6B, 0x73, 0x69, 0x7A, 0x65, 0x00, 0x31, 0x30, 0x32, 0x34, 0x00], 31) \<and>
   decode [0x00, 0x02, 0x66, 0x00, 0x4F, 0x63, 0x74, 0x65, 0x74, 0x00,
           0x74, 0x73, 0x69, 0x7A, 0x65, 0x00, 0x30, 0x00,
           0x62, 0x6C, 0x6B, 0x73, 0x69, 0x7A, 0x65, 0x00, 0x31, 0x30, 0x32, 0x34, 0x00] =
     Decoded (RequestP \<lparr>Request_Type = 2, Filename = ''f'', Mode = ''Octet'',
       OptionsNames = [''tsize'', ''blksize''], OptionsValues = [''0'', ''1024'']\<rparr>)"
proof -
  let ?p = "RequestP \<lparr>Request_Type = 2, Filename = ''f'', Mode = ''Octet'',
       OptionsNames = [''tsize'', ''blksize''], OptionsValues = [''0'', ''1024'']\<rparr>"
  let ?bs = "[0x00, 0x02, 0x66, 0x00, 0x4F, 0x63, 0x74, 0x65, 0x74, 0x00,
           0x74, 0x73, 0x69, 0x7A, 0x65, 0x00, 0x30, 0x00,
           0x62, 0x6C, 0x6B, 0x73, 0x69, 0x7A, 0x65, 0x00, 0x31, 0x30, 0x32, 0x34, 0x00 :: uint8]"
  have inv: "Packet_inv ?p"
    by (simp add: Packet_inv_def Request_inv_def wire_string_simps)
  have mk: "mode_known ?p"
    by (simp add: mode_known_def known_mode_def to_lower_def char_of_def bit_0)
  have ser: "serialize ?p = Inr (?bs, 31)"
    by (simp add: serialize_def Request_serialize_eq encode_option_def option_size_def)
  from decode_serialize_known_mode [OF inv mk] inv mk ser show ?thesis by simp
qed

text \<open>
  C3 as stated fails: a Request with mode \<open>mail\<close> satisfies the invariants of the data
  model, and the decoder rejects its encoding with \<open>InvalidMode\<close>.
\<close>

theorem decode_serialize_counterexample:
  "Packet_inv (RequestP \<lparr>Request_Type = 1, Filename = ''f'', Mode = ''mail'',
       OptionsNames = [], OptionsValues = []\<rparr>) \<and>
   serialize (RequestP \<lparr>Request_Type = 1, Filename = ''f'', Mode = ''mail'',
       OptionsNames = [], OptionsValues = []\<rparr>) =
     Inr ([0x00, 0x01, 0x66, 0x00, 0x6D, 0x61, 0x69, 0x6C, 0x00], 9) \<and>
   decode [0x00, 0x01, 0x66, 0x00, 0x6D, 0x61, 0x69, 0x6C, 0x00] = DecodingFailed InvalidMode"
proof -
  have m: "string_of_bytes [0x6D, 0x61, 0x69, 0x6C] = ''mail''"
    using string_of_bytes_of_char [of "''mail''"] by simp
  have nk: "\<not> known_mode ''mail''"
    by (simp add: known_mode_def to_lower_def)
  have op: "read_u16 0x00 0x01 = 1" by (simp add: read_u16_def)
  have "decode [0x00, 0x01, 0x66, 0x00, 0x6D, 0x61, 0x69, 0x6C, 0x00] = DecodingFailed InvalidMode"
    by (simp add: op decode_Request_def m nk)
  then show ?thesis
    by (simp add: Packet_inv_def Request_inv_def wire_string_simps serialize_def
        Request_serialize_eq)
qed

end
